theory Spec2Isabelle
  imports Complex_Main "HOL-Library.Sublist"
begin

section \<open>Common data: headers, errors, observable effects\<close>

text \<open>
  The program talks to GitHub over HTTP and signs tokens with PyJWT. Both are outside the
  repository, so they are parameters of the model (the record \<open>world\<close> below), and every
  call the code makes to them is written into a trace of events that the modelled
  function returns next to its result. A claim about "a network call is made" is a claim
  about that trace.
\<close>

type_synonym headers = "(string \<times> string) list"

text \<open>Naive \<open>datetime\<close> values, in microseconds since 1970-01-01T00:00:00.\<close>

type_synonym datetime = int

datatype error =
    JwtEncodeError
  | RequestException
  | AttributeError
  | TypeError
  | ValueError
  | OverflowError

record jwt_payload =
  jwt_iat :: int
  jwt_exp :: int
  jwt_iss :: string

datatype event =
    JwtEncode jwt_payload string string
  | HttpPost string headers "string option" "nat option"
  | HttpGet string headers
  | Sleep nat

text \<open>
  \<open>JwtEncode payload key algorithm\<close> is a call of \<open>jwt.encode\<close>;
  \<open>HttpPost url headers body timeout\<close> a call of \<open>requests.post\<close>;
  \<open>HttpGet url headers\<close> a call of \<open>requests.get\<close>; \<open>Sleep n\<close> a call of
  \<open>time.sleep(n)\<close>.
\<close>

fun is_network_call :: "event \<Rightarrow> bool" where
  "is_network_call (HttpPost u h b t) = True"
| "is_network_call (HttpGet u h) = True"
| "is_network_call (JwtEncode p k a) = False"
| "is_network_call (Sleep n) = False"

fun is_post :: "event \<Rightarrow> bool" where
  "is_post (HttpPost u h b t) = True"
| "is_post e = False"

definition network_calls :: "event list \<Rightarrow> event list" where
  "network_calls evs = filter is_network_call evs"

text \<open>A JSON value as Python sees it after \<open>response.json()\<close>; \<open>JNull\<close> is \<open>None\<close>.\<close>

datatype json =
    JNull
  | JBool bool
  | JInt int
  | JString string
  | JArray "json list"
  | JObject "(string \<times> json) list"

subsection \<open>Replies of the outside world\<close>

text \<open>
  The reply to \<open>POST /app/installations/{id}/access_tokens\<close>, as far as
  \<open>_fetch_new_token\<close> looks at it: the request or \<open>raise_for_status\<close> or
  \<open>response.json()\<close> raised a \<open>RequestException\<close>; or the body is JSON but no
  object (\<open>data.get\<close> raises \<open>AttributeError\<close>); or it is an object whose \<open>token\<close>
  and \<open>expires_at\<close> entries are as given (\<open>None\<close> when absent).
\<close>

datatype token_reply =
    TokenRequestFailed
  | TokenNotObject
  | TokenObject "string option" "string option"

text \<open>
  A webhook delivery as the code reads it with \<open>delivery.get\<close>: every entry may be
  absent (\<open>None\<close>); \<open>entry_id\<close> is the entry \<open>id\<close>. Following the annotations of
  hooks.py (\<open>List[str]\<close>, \<open>delivery_id: str\<close>) a delivery id is a string.
\<close>

record delivery =
  entry_id :: "string option"
  guid :: "string option"
  status_code :: "int option"
  delivered_at :: "string option"
  redelivery :: bool

text \<open>
  One element of a page of the delivery log: a JSON object, or anything else (on which
  \<open>delivery.get\<close> raises \<open>AttributeError\<close>).
\<close>

datatype item = Obj delivery | NonObj

text \<open>
  The reply to \<open>GET /app/hook/deliveries\<close>: the request, \<open>raise_for_status\<close> or
  \<open>response.json()\<close> raised; or a page of items with the \<open>Link\<close> response header
  (\<open>None\<close> when the header is absent).
\<close>

datatype page_reply =
    PageFailed
  | Page "item list" "string option"

text \<open>
  The reply to \<open>POST /app/hook/deliveries/{id}/attempts\<close>: \<open>requests.post\<close> raised
  (connection error, timeout, ...); or a response with its status code and its body as
  \<open>response.json()\<close> reads it (\<open>None\<close> when that raises).
\<close>

datatype attempt_reply =
    AttemptRaised
  | AttemptResponse int "json option"

text \<open>
  The reply to the GraphQL mutation, as far as \<open>add_to_project\<close> looks at it: the
  request failed; the body has an \<open>errors\<close> entry; the body lacks
  \<open>data.addProjectV2ItemById.item.id\<close>; or it holds that item id.
\<close>

datatype graphql_reply =
    GraphqlRequestFailed
  | GraphqlErrors
  | GraphqlNoItem
  | GraphqlItem string

record world =
  jwt_encode :: "jwt_payload \<Rightarrow> string \<Rightarrow> string \<Rightarrow> string option"
  strptime :: "string \<Rightarrow> datetime option"
  timestamp :: "datetime \<Rightarrow> real"
  post_access_tokens :: "string \<Rightarrow> headers \<Rightarrow> token_reply"
  get_deliveries :: "string \<Rightarrow> headers \<Rightarrow> page_reply"
  post_attempts :: "string \<Rightarrow> headers \<Rightarrow> attempt_reply"
  post_graphql :: "headers \<Rightarrow> string \<Rightarrow> graphql_reply"

text \<open>
  \<open>jwt_encode\<close> is \<open>jwt.encode(payload, key, algorithm)\<close>, \<open>None\<close> when it raises;
  \<open>strptime s\<close> is \<open>datetime.strptime(s, "%Y-%m-%dT%H:%M:%SZ")\<close>, \<open>None\<close> when it
  raises \<open>ValueError\<close>; \<open>timestamp\<close> is \<open>datetime.timestamp\<close>.
\<close>

section \<open>auth.py\<close>

definition bearer_headers :: "string \<Rightarrow> headers" where
  "bearer_headers tok =
     [(''Accept'', ''application/vnd.github+json''),
      (''Authorization'', ''Bearer '' @ tok),
      (''X-GitHub-Api-Version'', ''2022-11-28'')]"

text \<open>
  \<open>github_auth_jwt\<close>; \<open>now\<close> is \<open>int(datetime.datetime.utcnow().timestamp())\<close>, read by
  the caller of the model.
\<close>

definition github_auth_jwt ::
  "world \<Rightarrow> int \<Rightarrow> string \<Rightarrow> string \<Rightarrow> (error + headers) \<times> event list" where
  "github_auth_jwt w now github_app_id github_app_private_key =
     (let payload = \<lparr>jwt_iat = now - 60, jwt_exp = now + 60 * 8, jwt_iss = github_app_id\<rparr>
      in (case jwt_encode w payload github_app_private_key ''RS256'' of
            None \<Rightarrow> Inl JwtEncodeError
          | Some tok \<Rightarrow> Inr (bearer_headers tok),
          [JwtEncode payload github_app_private_key ''RS256'']))"

text \<open>The payloads of the assertions a trace signed, with key and algorithm.\<close>

fun minted :: "event list \<Rightarrow> (jwt_payload \<times> string \<times> string) list" where
  "minted [] = []"
| "minted (JwtEncode p k a # evs) = (p, k, a) # minted evs"
| "minted (e # evs) = minted evs"

subsection \<open>The installation token manager\<close>

text \<open>
  The instance attributes of \<open>GitHubInstallationTokenManager\<close>. \<open>token\<close> is
  \<open>_token\<close> (\<open>None\<close> until the first fetch) and \<open>expires_at\<close> is \<open>_expires_at\<close>,
  epoch seconds.
\<close>

record manager =
  github_app_installation_id :: string
  github_app_id :: string
  github_app_private_key :: string
  token :: "string option"
  expires_at :: real

text \<open>Python's \<open>not s\<close> for an optional string: \<open>None\<close> and the empty string are falsy.\<close>

fun py_not :: "string option \<Rightarrow> bool" where
  "py_not None = True"
| "py_not (Some s) = (s = [])"

text \<open>Python's \<open>str(s)\<close> inside an f-string: \<open>None\<close> prints as the word None.\<close>

fun py_str :: "string option \<Rightarrow> string" where
  "py_str None = ''None''"
| "py_str (Some s) = s"

text \<open>
  \<open>_parse_github_time\<close>: \<open>strptime\<close> raises \<open>TypeError\<close> on \<open>None\<close> and
  \<open>ValueError\<close> on a string of another format; both propagate.
\<close>

definition parse_github_time :: "world \<Rightarrow> string option \<Rightarrow> error + real" where
  "parse_github_time w time_str =
     (case time_str of
        None \<Rightarrow> Inl TypeError
      | Some s \<Rightarrow>
          (case strptime w s of
             None \<Rightarrow> Inl ValueError
           | Some dt \<Rightarrow> Inr (timestamp w dt)))"

definition access_tokens_url :: "string \<Rightarrow> string" where
  "access_tokens_url installation_id =
     ''https://api.github.com/app/installations/'' @ installation_id @ ''/access_tokens''"

text \<open>
  Lines 104 to 108: what \<open>_fetch_new_token\<close> does with the reply to its request.
  \<open>self._token\<close> is assigned before the expiry is parsed, so a reply with an
  unparseable expiry leaves the new token stored next to the old expiry.
\<close>

definition store_reply :: "world \<Rightarrow> token_reply \<Rightarrow> manager \<Rightarrow> (error + unit) \<times> manager" where
  "store_reply w reply m =
     (case reply of
        TokenRequestFailed \<Rightarrow> (Inl RequestException, m)
      | TokenNotObject \<Rightarrow> (Inl AttributeError, m)
      | TokenObject tok expires_at_str \<Rightarrow>
          (let m1 = m\<lparr>token := tok\<rparr>
           in case parse_github_time w expires_at_str of
                Inl e \<Rightarrow> (Inl e, m1)
              | Inr t \<Rightarrow> (Inr (), m1\<lparr>expires_at := t\<rparr>)))"

text \<open>
  \<open>_fetch_new_token\<close>: it signs an assertion, posts it, and stores the reply. Every
  exception is logged and raised again; one raised by \<open>github_auth_jwt\<close> leaves before
  the request is made.
\<close>

definition fetch_new_token ::
  "world \<Rightarrow> int \<Rightarrow> manager \<Rightarrow> (error + unit) \<times> manager \<times> event list" where
  "fetch_new_token w now m =
     (let url = access_tokens_url (github_app_installation_id m)
      in case github_auth_jwt w now (github_app_id m) (github_app_private_key m) of
           (Inl e, evs) \<Rightarrow> (Inl e, m, evs)
         | (Inr hdrs, evs) \<Rightarrow>
             (case store_reply w (post_access_tokens w url hdrs) m of
                (r, m') \<Rightarrow> (r, m', evs @ [HttpPost url hdrs None None])))"

text \<open>The test of \<open>get_headers\<close>, line 81, on the clock reading \<open>current_time\<close>.\<close>

definition needs_refresh :: "manager \<Rightarrow> real \<Rightarrow> bool" where
  "needs_refresh m current_time =
     (py_not (token m) \<or> expires_at m - current_time < 3600)"

text \<open>
  \<open>get_headers\<close>; \<open>current_time\<close> is its \<open>time.time()\<close>, and \<open>now\<close> the clock reading of
  the \<open>github_auth_jwt\<close> it may call. The method takes no lock.
\<close>

definition get_headers ::
  "world \<Rightarrow> real \<Rightarrow> int \<Rightarrow> manager \<Rightarrow> (error + headers) \<times> manager \<times> event list" where
  "get_headers w current_time now m =
     (if needs_refresh m current_time
      then (case fetch_new_token w now m of
              (Inl e, m', evs) \<Rightarrow> (Inl e, m', evs)
            | (Inr u, m', evs) \<Rightarrow> (Inr (bearer_headers (py_str (token m'))), m', evs))
      else (Inr (bearer_headers (py_str (token m))), m, []))"

subsection \<open>The singleton constructor\<close>

text \<open>
  The class attribute \<open>_instance\<close> refers to at most one object. The objects of the class
  live in a store (a list, an object's address being its index); \<open>cls_instance\<close> is
  \<open>_instance\<close>, \<open>None\<close> before the first construction.
\<close>

record process =
  objects :: "manager list"
  cls_instance :: "nat option"

definition GitHubInstallationTokenManager_new ::
  "process \<Rightarrow> string \<Rightarrow> string \<Rightarrow> string \<Rightarrow> nat \<times> process" where
  "GitHubInstallationTokenManager_new p installation_id app_id private_key =
     (case cls_instance p of
        None \<Rightarrow>
          (length (objects p),
           p\<lparr>objects := objects p @
                  [\<lparr>github_app_installation_id = installation_id,
                    github_app_id = app_id,
                    github_app_private_key = private_key,
                    token = None,
                    expires_at = 0\<rparr>],
              cls_instance := Some (length (objects p))\<rparr>)
      | Some r \<Rightarrow> (r, p))"

text \<open>
  \<open>get_headers\<close> called on the object at address \<open>r\<close>: the store is updated in place.
  An address outside the store is no object; the model then returns \<open>None\<close>.
\<close>

definition get_headers_at ::
  "world \<Rightarrow> real \<Rightarrow> int \<Rightarrow> process \<Rightarrow> nat \<Rightarrow> ((error + headers) \<times> process \<times> event list) option"
  where
  "get_headers_at w current_time now p r =
     (if r < length (objects p)
      then (case get_headers w current_time now (objects p ! r) of
              (res, m', evs) \<Rightarrow> Some (res, p\<lparr>objects := (objects p)[r := m']\<rparr>, evs))
      else None)"

subsection \<open>Callers of \<open>get_headers\<close> that overlap\<close>

text \<open>
  \<open>get_headers\<close> and \<open>_fetch_new_token\<close> hold no lock (the class lock guards
  \<open>__new__\<close> only), so callers on several threads interleave. The model cuts one call
  into its steps at the points where it reads or writes the shared object or waits for
  the network:
  \<^item> \<open>Entered\<close>: the call has started;
  \<^item> \<open>Checked b\<close>: it has read the clock and evaluated the test of line 81 to \<open>b\<close>;
  \<^item> \<open>Awaiting\<close>: it has signed its assertion and sent its request (line 103) and
    waits for the response;
  \<^item> \<open>Stored\<close>: it has written the reply into the shared object (lines 106 to 108);
  \<^item> \<open>Finished h\<close>: it has returned the headers \<open>h\<close>, built from the shared token as
    it is at that moment;
  \<^item> \<open>Failed e\<close>: it has raised \<open>e\<close>.
  A coarser cut only removes interleavings, so a race found here is a race of the code.
\<close>

datatype pc =
    Entered
  | Checked bool
  | Awaiting headers
  | Stored
  | Finished headers
  | Failed error

record sys =
  shared :: manager
  callers :: "pc list"
  in_flight :: nat
  trace :: "event list"

text \<open>
  One step of caller \<open>i\<close>. \<open>clock i\<close> are the caller's two clock readings:
  \<open>time.time()\<close> in \<open>get_headers\<close> and \<open>utcnow\<close> in \<open>github_auth_jwt\<close>. No step looks
  at another caller's state: nothing makes a caller wait.
\<close>

definition step :: "world \<Rightarrow> (nat \<Rightarrow> real \<times> int) \<Rightarrow> nat \<Rightarrow> sys \<Rightarrow> sys" where
  "step w clock i s =
     (if i < length (callers s)
      then (case callers s ! i of
              Entered \<Rightarrow>
                s\<lparr>callers := (callers s)[i := Checked (needs_refresh (shared s) (fst (clock i)))]\<rparr>
            | Checked b \<Rightarrow>
                (if b
                 then (case github_auth_jwt w (snd (clock i)) (github_app_id (shared s))
                              (github_app_private_key (shared s)) of
                         (Inl e, evs) \<Rightarrow>
                           s\<lparr>callers := (callers s)[i := Failed e], trace := trace s @ evs\<rparr>
                       | (Inr hdrs, evs) \<Rightarrow>
                           s\<lparr>callers := (callers s)[i := Awaiting hdrs],
                             in_flight := in_flight s + 1,
                             trace := trace s @ evs @
                               [HttpPost (access_tokens_url (github_app_installation_id (shared s)))
                                  hdrs None None]\<rparr>)
                 else s\<lparr>callers :=
                          (callers s)[i := Finished (bearer_headers (py_str (token (shared s))))]\<rparr>)
            | Awaiting hdrs \<Rightarrow>
                (case store_reply w
                        (post_access_tokens w
                           (access_tokens_url (github_app_installation_id (shared s))) hdrs)
                        (shared s) of
                   (Inl e, m') \<Rightarrow>
                     s\<lparr>shared := m', callers := (callers s)[i := Failed e],
                       in_flight := in_flight s - 1\<rparr>
                 | (Inr u, m') \<Rightarrow>
                     s\<lparr>shared := m', callers := (callers s)[i := Stored],
                       in_flight := in_flight s - 1\<rparr>)
            | Stored \<Rightarrow>
                s\<lparr>callers :=
                    (callers s)[i := Finished (bearer_headers (py_str (token (shared s))))]\<rparr>
            | Finished h \<Rightarrow> s
            | Failed e \<Rightarrow> s)
      else s)"

text \<open>A schedule names the caller that takes the next step.\<close>

fun run :: "world \<Rightarrow> (nat \<Rightarrow> real \<times> int) \<Rightarrow> nat list \<Rightarrow> sys \<Rightarrow> sys" where
  "run w clock [] s = s"
| "run w clock (i # sched) s = run w clock sched (step w clock i s)"

text \<open>\<open>n\<close> callers that have just entered \<open>get_headers\<close> on the object \<open>m\<close>.\<close>

definition start :: "manager \<Rightarrow> nat \<Rightarrow> sys" where
  "start m n = \<lparr>shared = m, callers = replicate n Entered, in_flight = 0, trace = []\<rparr>"





section \<open>hooks.py\<close>

subsection \<open>Selecting the failed deliveries\<close>

text \<open>
  The loop of \<open>get_list_of_all_failed_delivery_ids\<close>, with its two accumulators
  \<open>failed_delivery_ids\<close> and \<open>guids\<close>. An entry is taken when its status is not 200,
  its guid has not been taken before and its id is truthy. The model reads the id first,
  to append the string itself; the three tests have no effect, so their order is free.
\<close>

fun failed_loop ::
  "delivery list \<Rightarrow> string list \<Rightarrow> string option list \<Rightarrow> string list" where
  "failed_loop [] failed_delivery_ids guids = failed_delivery_ids"
| "failed_loop (d # ds) failed_delivery_ids guids =
     (case entry_id d of
        None \<Rightarrow> failed_loop ds failed_delivery_ids guids
      | Some i \<Rightarrow>
          (if status_code d \<noteq> Some 200 \<and> guid d \<notin> set guids \<and> i \<noteq> []
           then failed_loop ds (failed_delivery_ids @ [i]) (guids @ [guid d])
           else failed_loop ds failed_delivery_ids guids))"

definition get_list_of_all_failed_delivery_ids :: "delivery list \<Rightarrow> string list" where
  "get_list_of_all_failed_delivery_ids deliveries = failed_loop deliveries [] []"

text \<open>
  The test of line 38 without its \<open>guid not in guids\<close> part: the entry failed and has
  an id.
\<close>

definition eligible :: "delivery \<Rightarrow> bool" where
  "eligible d = (status_code d \<noteq> Some 200 \<and> \<not> py_not (entry_id d))"

text \<open>The entries whose ids the loop appends, given the guids taken so far.\<close>

fun taken :: "delivery list \<Rightarrow> string option list \<Rightarrow> delivery list" where
  "taken [] guids = []"
| "taken (d # ds) guids =
     (if eligible d \<and> guid d \<notin> set guids then d # taken ds (guids @ [guid d])
      else taken ds guids)"

subsection \<open>Python string operations used on the Link header\<close>

definition dq :: string where
  "dq = [CHR 0x22]"

definition nl :: string where
  "nl = [CHR 0x0A]"

definition rel_next :: string where
  "rel_next = ''rel='' @ dq @ ''next'' @ dq"

text \<open>\<open>p in s\<close> for strings.\<close>

fun py_in :: "string \<Rightarrow> string \<Rightarrow> bool" where
  "py_in p [] = (p = [])"
| "py_in p (c # cs) = (prefix p (c # cs) \<or> py_in p cs)"

text \<open>\<open>s.split(c)\<close> for a one-character separator.\<close>

fun py_split :: "char \<Rightarrow> string \<Rightarrow> string list" where
  "py_split c [] = [[]]"
| "py_split c (x # xs) =
     (if x = c then [] # py_split c xs
      else (case py_split c xs of
              [] \<Rightarrow> [[x]]
            | p # ps \<Rightarrow> (x # p) # ps))"

text \<open>\<open>s.find(c)\<close>: the first index of the character, or -1.\<close>

fun py_find :: "char \<Rightarrow> string \<Rightarrow> int" where
  "py_find c [] = -1"
| "py_find c (x # xs) =
     (if x = c then 0
      else (let r = py_find c xs in if r < 0 then -1 else r + 1))"

text \<open>\<open>s[a:b]\<close>: a negative index counts from the end, and both are clamped.\<close>

definition py_slice :: "string \<Rightarrow> int \<Rightarrow> int \<Rightarrow> string" where
  "py_slice s a b =
     (let n = int (length s);
          lo = (if a < 0 then max 0 (a + n) else min a n);
          hi = (if b < 0 then max 0 (b + n) else min b n)
      in drop (nat lo) (take (nat hi) s))"

text \<open>Lines 94 to 102: the \<open>next_url\<close> read off the Link header, \<open>None\<close> without one.\<close>

definition next_url_of :: "string \<Rightarrow> string option" where
  "next_url_of link_header =
     (if py_in rel_next link_header
      then (case filter (py_in rel_next) (py_split (CHR '','') link_header) of
              [] \<Rightarrow> None
            | part # rest \<Rightarrow>
                Some (py_slice part (py_find (CHR ''<'') part + 1) (py_find (CHR ''>'') part)))
      else None)"

subsection \<open>Listing the recent deliveries\<close>

text \<open>
  How the \<open>for delivery in data\<close> loop ends: it ran through the page, it returned from
  the function at a delivery older than the cutoff, or it raised.
\<close>

datatype scan = PageDone | Returned | Raised

fun scan_page ::
  "world \<Rightarrow> datetime \<Rightarrow> item list \<Rightarrow> delivery list \<Rightarrow> scan \<times> delivery list" where
  "scan_page w cutoff_time [] deliveries = (PageDone, deliveries)"
| "scan_page w cutoff_time (NonObj # rest) deliveries = (Raised, deliveries)"
| "scan_page w cutoff_time (Obj d # rest) deliveries =
     (if py_not (delivered_at d) then scan_page w cutoff_time rest deliveries
      else (case strptime w (py_str (delivered_at d)) of
              None \<Rightarrow> scan_page w cutoff_time rest deliveries
            | Some t \<Rightarrow>
                (if t \<ge> cutoff_time
                 then scan_page w cutoff_time rest (deliveries @ [d])
                 else (Returned, deliveries))))"




definition deliveries_url :: string where
  "deliveries_url = ''https://api.github.com/app/hook/deliveries?per_page=100''"

text \<open>
  The \<open>while url\<close> loop of \<open>get_webhook_deliveries\<close>, entered with a non-empty \<open>url\<close>.
  Nothing bounds the number of pages, so the loop is a partial function: \<open>None\<close> is a
  run that never ends. The accumulators are the deliveries collected and the events so
  far.
\<close>

partial_function (option) fetch_pages ::
  "world \<Rightarrow> headers \<Rightarrow> datetime \<Rightarrow> string \<Rightarrow> delivery list \<Rightarrow> event list \<Rightarrow>
     (delivery list \<times> event list) option" where
  "fetch_pages w auth_headers cutoff_time url deliveries evs =
     (case get_deliveries w url auth_headers of
        PageFailed \<Rightarrow> Some (deliveries, evs @ [HttpGet url auth_headers])
      | Page data link \<Rightarrow>
          (if data = [] then Some (deliveries, evs @ [HttpGet url auth_headers])
           else (case scan_page w cutoff_time data deliveries of
                   (Returned, ds) \<Rightarrow> Some (ds, evs @ [HttpGet url auth_headers])
                 | (Raised, ds) \<Rightarrow> Some (ds, evs @ [HttpGet url auth_headers])
                 | (PageDone, ds) \<Rightarrow>
                     (case next_url_of (case link of None \<Rightarrow> [] | Some l \<Rightarrow> l) of
                        None \<Rightarrow> Some (ds, evs @ [HttpGet url auth_headers])
                      | Some next_url \<Rightarrow>
                          (if next_url = [] then Some (ds, evs @ [HttpGet url auth_headers])
                           else fetch_pages w auth_headers cutoff_time next_url ds
                                  (evs @ [HttpGet url auth_headers, Sleep 1]))))))"

text \<open>
  \<open>utcnow() - timedelta(days=days_to_reprocess)\<close>: \<open>timedelta\<close> raises
  \<open>OverflowError\<close> beyond 999999999 days, and so does the subtraction when the result
  leaves the years 1 to 9999.
\<close>

definition cutoff_of :: "datetime \<Rightarrow> int \<Rightarrow> datetime option" where
  "cutoff_of utcnow days_to_reprocess =
     (if \<bar>days_to_reprocess\<bar> > 999999999 then None
      else (let c = utcnow - days_to_reprocess * 86400000000
            in if c < - 62135596800000000 \<or> c > 253402300799999999 then None else Some c))"

text \<open>
  \<open>get_webhook_deliveries\<close>; \<open>utcnow\<close> is its clock reading. The cutoff is computed
  outside the \<open>try\<close>, so its \<open>OverflowError\<close> propagates.
\<close>

definition get_webhook_deliveries ::
  "world \<Rightarrow> headers \<Rightarrow> datetime \<Rightarrow> int \<Rightarrow> ((error + delivery list) \<times> event list) option" where
  "get_webhook_deliveries w auth_headers utcnow days_to_reprocess =
     (case cutoff_of utcnow days_to_reprocess of
        None \<Rightarrow> Some (Inl OverflowError, [])
      | Some cutoff_time \<Rightarrow>
          (case fetch_pages w auth_headers cutoff_time deliveries_url [] [] of
             None \<Rightarrow> None
           | Some (ds, evs) \<Rightarrow> Some (Inr ds, evs)))"

subsection \<open>Retrying\<close>

definition attempts_url :: "string \<Rightarrow> string" where
  "attempts_url delivery_id =
     ''https://api.github.com/app/hook/deliveries/'' @ delivery_id @ ''/attempts''"

text \<open>
  \<open>retry_webhook_delivery\<close>. The status code 202 only selects a log line; the function
  returns \<open>response.json()\<close> for every response, and \<open>None\<close> (\<open>JNull\<close>) when the
  request or the decoding of the body raised.
\<close>

definition retry_webhook_delivery ::
  "world \<Rightarrow> string \<Rightarrow> headers \<Rightarrow> json \<times> event list" where
  "retry_webhook_delivery w delivery_id auth_headers =
     (let url = attempts_url delivery_id
      in (case post_attempts w url auth_headers of
            AttemptRaised \<Rightarrow> JNull
          | AttemptResponse status body \<Rightarrow>
              (case body of None \<Rightarrow> JNull | Some j \<Rightarrow> j),
          [HttpPost url auth_headers None (Some 30)]))"

text \<open>The \<open>for delivery_id in failed_delivery_ids\<close> loop: only its events remain.\<close>

fun retry_all :: "world \<Rightarrow> string list \<Rightarrow> headers \<Rightarrow> event list" where
  "retry_all w [] auth_headers = []"
| "retry_all w (i # ids) auth_headers =
     snd (retry_webhook_delivery w i auth_headers) @ retry_all w ids auth_headers"

text \<open>
  \<open>retry_failed_deliveries\<close> returns nothing and swallows every exception; what is left
  of a run is its trace. \<open>now\<close> is the clock reading of \<open>github_auth_jwt\<close>, \<open>utcnow\<close>
  that of \<open>get_webhook_deliveries\<close>.
\<close>

definition retry_failed_deliveries ::
  "world \<Rightarrow> int \<Rightarrow> datetime \<Rightarrow> string \<Rightarrow> string \<Rightarrow> int \<Rightarrow> event list option" where
  "retry_failed_deliveries w now utcnow app_id private_key number_of_days_to_reprocess =
     (case github_auth_jwt w now app_id private_key of
        (Inl e, evs) \<Rightarrow> Some evs
      | (Inr auth_headers, evs) \<Rightarrow>
          (case get_webhook_deliveries w auth_headers utcnow number_of_days_to_reprocess of
             None \<Rightarrow> None
           | Some (Inl e, evs2) \<Rightarrow> Some (evs @ evs2)
           | Some (Inr deliveries, evs2) \<Rightarrow>
               Some (evs @ evs2 @
                     retry_all w (get_list_of_all_failed_delivery_ids deliveries) auth_headers)))"

section \<open>projects.py\<close>

definition graphql_url :: string where
  "graphql_url = ''https://api.github.com/graphql''"

text \<open>The f-string of \<open>add_to_project\<close>, with its line breaks and indentation.\<close>

definition mutation :: "string option \<Rightarrow> string \<Rightarrow> string" where
  "mutation project_node_id item_node_id =
     nl @ ''    mutation {'' @ nl @
     ''        addProjectV2ItemById(input: {projectId: '' @ dq @ py_str project_node_id @ dq @
       '', contentId: '' @ dq @ item_node_id @ dq @ ''}) {'' @ nl @
     ''            item {'' @ nl @
     ''                id'' @ nl @
     ''            }'' @ nl @
     ''        }'' @ nl @
     ''    }'' @ nl @
     ''    ''"

text \<open>
  \<open>add_to_project\<close>: one POST whose body carries the mutation as its \<open>query\<close>. Every
  exception is caught; the result is \<open>True\<close> only when the reply holds the item id.
  \<open>project_node_id\<close> is optional because main.py passes the result of
  \<open>get_project_node_id\<close>, which may be \<open>None\<close>.
\<close>

definition add_to_project ::
  "world \<Rightarrow> string option \<Rightarrow> string \<Rightarrow> headers \<Rightarrow> bool \<times> event list" where
  "add_to_project w project_node_id item_node_id auth_headers =
     (let query = mutation project_node_id item_node_id
      in (case post_graphql w auth_headers query of
            GraphqlRequestFailed \<Rightarrow> False
          | GraphqlErrors \<Rightarrow> False
          | GraphqlNoItem \<Rightarrow> False
          | GraphqlItem item_id \<Rightarrow> True,
          [HttpPost graphql_url auth_headers (Some query) None]))"

section \<open>main.py\<close>

text \<open>
  The \<open>issue\<close> entry of a webhook body: absent (then \<open>request_body.get("issue", {})\<close>
  is the empty object), present but no object (\<open>issue.get\<close> raises), or an object with
  its \<open>node_id\<close> entry.
\<close>

datatype issue_field =
    IssueAbsent
  | IssueNotObject
  | IssueObject "string option"

text \<open>
  The body of a request: not JSON (\<open>request.json()\<close> raises), JSON but no object
  (\<open>request_body.get\<close> raises), or an object with its \<open>action\<close> and \<open>issue\<close>.
\<close>

datatype request_body =
    BodyInvalid
  | BodyNotObject
  | BodyObject "string option" issue_field

record request =
  x_github_event :: "string option"
  request_json :: request_body

text \<open>
  What the framework sends back: a returned dictionary goes out with status 200, and
  \<open>HTTPException(status_code, detail)\<close> with that status and the detail.
\<close>

datatype http_response = JSONResponse int "(string \<times> string) list"

definition issue_node_id :: "issue_field \<Rightarrow> error + string option" where
  "issue_node_id issue =
     (case issue of
        IssueAbsent \<Rightarrow> Inr None
      | IssueNotObject \<Rightarrow> Inl AttributeError
      | IssueObject node_id \<Rightarrow> Inr node_id)"

text \<open>
  \<open>trigger_workflow\<close>. \<open>PROJECT_NODE_ID\<close> and \<open>hdrs\<close> are the module globals
  \<open>PROJECT_NODE_ID\<close> and \<open>headers\<close>, set once when main.py is loaded. The result of
  \<open>add_to_project\<close> is not looked at.
\<close>

definition trigger_workflow ::
  "world \<Rightarrow> string option \<Rightarrow> headers \<Rightarrow> request \<Rightarrow> http_response \<times> event list" where
  "trigger_workflow w PROJECT_NODE_ID hdrs req =
     (if x_github_event req = Some ''issues''
      then (case request_json req of
              BodyInvalid \<Rightarrow> (JSONResponse 500 [(''detail'', ''Internal Server Error'')], [])
            | BodyNotObject \<Rightarrow> (JSONResponse 500 [(''detail'', ''Internal Server Error'')], [])
            | BodyObject action issue \<Rightarrow>
                (case issue_node_id issue of
                   Inl e \<Rightarrow> (JSONResponse 500 [(''detail'', ''Internal Server Error'')], [])
                 | Inr node_id \<Rightarrow>
                     (if action \<in> {Some ''opened'', Some ''reopened''} \<and> \<not> py_not node_id
                      then (JSONResponse 200 [(''message'', ''Issue added to project.'')],
                            snd (add_to_project w PROJECT_NODE_ID (py_str node_id) hdrs))
                      else (JSONResponse 200 [(''message'', ''No action taken.'')], []))))
      else (JSONResponse 200 [(''message'', ''No action taken.'')], []))"

section \<open>Concrete worlds for the examples\<close>

text \<open>
  A GitHub that signs with the key \<open>PEM\<close> only, issues the token \<open>ghs_1\<close> expiring on
  2030-01-01, knows three timestamps, serves an empty delivery log, answers every
  redelivery with 404 and every mutation with an error array.
\<close>

definition demo_world :: world where
  "demo_world =
     \<lparr>jwt_encode = (\<lambda>p k a. if k = ''PEM'' \<and> a = ''RS256'' then Some (''jwt-'' @ jwt_iss p) else None),
      strptime = (\<lambda>s. if s = ''2030-01-01T00:00:00Z'' then Some 1893456000000000
                       else if s = ''2024-01-10T00:00:00Z'' then Some 1704844800000000
                       else if s = ''2024-01-01T00:00:00Z'' then Some 1704067200000000
                       else None),
      timestamp = (\<lambda>d. real_of_int d / 1000000),
      post_access_tokens = (\<lambda>url h. TokenObject (Some ''ghs_1'') (Some ''2030-01-01T00:00:00Z'')),
      get_deliveries = (\<lambda>url h. Page [] None),
      post_attempts =
        (\<lambda>url h. AttemptResponse 404 (Some (JObject [(''message'', JString ''Not Found'')]))),
      post_graphql = (\<lambda>h q. GraphqlErrors)\<rparr>"

text \<open>A manager as \<open>__new__\<close> leaves it: nothing cached.\<close>

definition cold :: "string \<Rightarrow> manager" where
  "cold private_key =
     \<lparr>github_app_installation_id = ''77'', github_app_id = ''12345'',
      github_app_private_key = private_key, token = None, expires_at = 0\<rparr>"


text \<open>A delivery with the given id, guid, status code and timestamp.\<close>

definition attempt :: "string option \<Rightarrow> string \<Rightarrow> int \<Rightarrow> string \<Rightarrow> delivery" where
  "attempt i g status stamp =
     \<lparr>entry_id = i, guid = Some g, status_code = Some status, delivered_at = Some stamp,
      redelivery = False\<rparr>"

text \<open>
  A delivery log of two pages. The first page holds a delivery of 2024-01-10, one of
  2024-01-01 and another of 2024-01-10, and its Link header points to the second page.
\<close>

definition next_link :: string where
  "next_link =
     ''<https://api.github.com/app/hook/deliveries?per_page=100&cursor=v1_2>; rel='' @ dq @
     ''next'' @ dq"

definition paged_world :: world where
  "paged_world =
     demo_world\<lparr>get_deliveries :=
        (\<lambda>url h. if url = deliveries_url
                 then Page [Obj (attempt (Some ''1'') ''g'' 500 ''2024-01-10T00:00:00Z''),
                            Obj (attempt (Some ''2'') ''h'' 500 ''2024-01-01T00:00:00Z''),
                            Obj (attempt (Some ''3'') ''k'' 500 ''2024-01-10T00:00:00Z'')]
                        (Some next_link)
                 else Page [Obj (attempt (Some ''4'') ''l'' 500 ''2024-01-10T00:00:00Z'')] None)\<rparr>"

section \<open>Properties\<close>

subsection \<open>Callers that overlap (C1)\<close>


text \<open>
  The cut into steps agrees with \<open>get_headers\<close>: a caller that runs alone, all its
  steps in a row, leaves the result, the object and the events of the sequential call.
\<close>

lemma solo_run:
  assumes "get_headers w (fst (clk 0)) (snd (clk 0)) m = (res, m', evs)"
  shows "run w clk [0, 0, 0, 0] (start m 1) =
       \<lparr>shared = m', callers = [case res of Inl e \<Rightarrow> Failed e | Inr h \<Rightarrow> Finished h],
        in_flight = 0, trace = evs\<rparr>"
proof (cases "needs_refresh m (fst (clk 0))")
  case False
  with assms show ?thesis
    by (auto simp: get_headers_def step_def start_def)
next
  case True
  obtain r0 evs0 where j: "github_auth_jwt w (snd (clk 0)) (github_app_id m)
      (github_app_private_key m) = (r0, evs0)"
    by (cases "github_auth_jwt w (snd (clk 0)) (github_app_id m) (github_app_private_key m)")
  show ?thesis
  proof (cases r0)
    case (Inl e)
    with assms True j show ?thesis
      by (auto simp: get_headers_def fetch_new_token_def step_def start_def Let_def)
  next
    case (Inr hdrs)
    obtain r1 m1 where st: "store_reply w
        (post_access_tokens w (access_tokens_url (github_app_installation_id m)) hdrs) m = (r1, m1)"
      by (cases "store_reply w
        (post_access_tokens w (access_tokens_url (github_app_installation_id m)) hdrs) m")
    show ?thesis
    proof (cases r1)
      case (Inl e)
      with assms True j Inr st show ?thesis
        by (auto simp: get_headers_def fetch_new_token_def step_def start_def Let_def)
    next
      case (Inr u)
      with assms True j \<open>r0 = Inr hdrs\<close> st show ?thesis
        by (auto simp: get_headers_def fetch_new_token_def step_def start_def Let_def)
    qed
  qed
qed












subsection \<open>Refreshing the token (C2)\<close>

lemma needs_refresh_iff:
  "needs_refresh m t \<longleftrightarrow> token m = None \<or> token m = Some [] \<or> expires_at m - t < 3600"
  by (cases "token m") (auto simp: needs_refresh_def)

text \<open>
  C2 (as amended). For every call of \<open>get_headers\<close>: when a non-empty token is cached
  with \<open>expires_at - now \<ge> 3600\<close>, the cached token is returned, the object is left as it
  is and nothing is called; a token-exchange network call is made if and only if no
  token is cached (\<open>None\<close> or the empty string) or \<open>expires_at - now < 3600\<close>, and the
  App assertion could be signed (a signing failure is raised before any request is
  sent); and whenever headers are returned in that case, exactly one request was sent
  and the headers are built from the token of its reply, which is now the cached one.
\<close>

theorem get_headers_refresh:
  "(\<not> (token m = None \<or> token m = Some [] \<or> expires_at m - t < 3600) \<longrightarrow>
      get_headers w t now m = (Inr (bearer_headers (py_str (token m))), m, []))
   \<and> (network_calls (snd (snd (get_headers w t now m))) \<noteq> [] \<longleftrightarrow>
        (token m = None \<or> token m = Some [] \<or> expires_at m - t < 3600) \<and>
        jwt_encode w \<lparr>jwt_iat = now - 60, jwt_exp = now + 480, jwt_iss = github_app_id m\<rparr>
          (github_app_private_key m) ''RS256'' \<noteq> None)
   \<and> ((token m = None \<or> token m = Some [] \<or> expires_at m - t < 3600) \<and>
       get_headers w t now m = (Inr h, m', evs) \<longrightarrow>
        (\<exists>jwt tok e.
           jwt_encode w \<lparr>jwt_iat = now - 60, jwt_exp = now + 480, jwt_iss = github_app_id m\<rparr>
             (github_app_private_key m) ''RS256'' = Some jwt \<and>
           network_calls evs =
             [HttpPost (access_tokens_url (github_app_installation_id m))
                (bearer_headers jwt) None None] \<and>
           post_access_tokens w (access_tokens_url (github_app_installation_id m))
             (bearer_headers jwt) = TokenObject tok e \<and>
           token m' = tok \<and> h = bearer_headers (py_str tok)))"
proof (intro conjI impI)
  assume "\<not> (token m = None \<or> token m = Some [] \<or> expires_at m - t < 3600)"
  then have "\<not> needs_refresh m t" by (simp add: needs_refresh_iff)
  then show "get_headers w t now m = (Inr (bearer_headers (py_str (token m))), m, [])"
    by (simp add: get_headers_def)
next
  show "network_calls (snd (snd (get_headers w t now m))) \<noteq> [] \<longleftrightarrow>
        (token m = None \<or> token m = Some [] \<or> expires_at m - t < 3600) \<and>
        jwt_encode w \<lparr>jwt_iat = now - 60, jwt_exp = now + 480, jwt_iss = github_app_id m\<rparr>
          (github_app_private_key m) ''RS256'' \<noteq> None"
    unfolding needs_refresh_iff [symmetric]
    by (auto simp: get_headers_def fetch_new_token_def github_auth_jwt_def network_calls_def
          Let_def split: prod.splits sum.splits option.splits)
next
  assume a: "(token m = None \<or> token m = Some [] \<or> expires_at m - t < 3600) \<and>
       get_headers w t now m = (Inr h, m', evs)"
  then have nr: "needs_refresh m t" by (simp add: needs_refresh_iff)
  from a nr show "\<exists>jwt tok e.
           jwt_encode w \<lparr>jwt_iat = now - 60, jwt_exp = now + 480, jwt_iss = github_app_id m\<rparr>
             (github_app_private_key m) ''RS256'' = Some jwt \<and>
           network_calls evs =
             [HttpPost (access_tokens_url (github_app_installation_id m))
                (bearer_headers jwt) None None] \<and>
           post_access_tokens w (access_tokens_url (github_app_installation_id m))
             (bearer_headers jwt) = TokenObject tok e \<and>
           token m' = tok \<and> h = bearer_headers (py_str tok)"
    by (auto simp: get_headers_def fetch_new_token_def github_auth_jwt_def network_calls_def
          store_reply_def Let_def
          split: prod.splits sum.splits option.splits token_reply.splits)
qed

theorem get_headers_refresh_witness:
  "get_headers demo_world 0 1000 (cold ''PEM'') =
     (Inr (bearer_headers ''ghs_1''),
      (cold ''PEM'')\<lparr>token := Some ''ghs_1'', expires_at := 1893456000\<rparr>,
      [JwtEncode \<lparr>jwt_iat = 940, jwt_exp = 1480, jwt_iss = ''12345''\<rparr> ''PEM'' ''RS256'',
       HttpPost ''https://api.github.com/app/installations/77/access_tokens''
         (bearer_headers ''jwt-12345'') None None])
   \<and> get_headers demo_world 1000 1000
        ((cold ''PEM'')\<lparr>token := Some ''ghs_1'', expires_at := 1893456000\<rparr>) =
       (Inr (bearer_headers ''ghs_1''),
        (cold ''PEM'')\<lparr>token := Some ''ghs_1'', expires_at := 1893456000\<rparr>, [])"
proof -
  let ?m = "(cold ''PEM'')\<lparr>token := Some ''ghs_1'', expires_at := 1893456000\<rparr>"
  have fresh: "\<not> (token ?m = None \<or> token ?m = Some [] \<or> expires_at ?m - 1000 < 3600)"
    by (simp add: cold_def)
  have hit: "get_headers demo_world 1000 1000 ?m = (Inr (bearer_headers (py_str (token ?m))), ?m, [])"
    using get_headers_refresh [of ?m 1000 demo_world 1000] fresh by blast
  have miss: "get_headers demo_world 0 1000 (cold ''PEM'') =
     (Inr (bearer_headers ''ghs_1''), ?m,
      [JwtEncode \<lparr>jwt_iat = 940, jwt_exp = 1480, jwt_iss = ''12345''\<rparr> ''PEM'' ''RS256'',
       HttpPost ''https://api.github.com/app/installations/77/access_tokens''
         (bearer_headers ''jwt-12345'') None None])"
    by (simp add: get_headers_def needs_refresh_def fetch_new_token_def github_auth_jwt_def
          store_reply_def parse_github_time_def access_tokens_url_def demo_world_def cold_def
          Let_def)
  from hit miss show ?thesis by (simp add: cold_def)
qed

text \<open>
  C2 as stated fails: with nothing cached and a private key that cannot sign,
  \<open>get_headers\<close> raises before any request is sent.
\<close>

theorem get_headers_refresh_counterexample:
  "token (cold ''not a key'') = None
   \<and> get_headers demo_world 0 1000 (cold ''not a key'') =
       (Inl JwtEncodeError, cold ''not a key'',
        [JwtEncode \<lparr>jwt_iat = 940, jwt_exp = 1480, jwt_iss = ''12345''\<rparr> ''not a key'' ''RS256''])
   \<and> network_calls (snd (snd (get_headers demo_world 0 1000 (cold ''not a key'')))) = []"
  by (simp add: get_headers_def needs_refresh_def fetch_new_token_def github_auth_jwt_def
        network_calls_def demo_world_def cold_def Let_def)

subsection \<open>The signed assertion (C3)\<close>

text \<open>
  C3 (as amended). Every assertion \<open>github_auth_jwt\<close> mints has issuer = the App id, is
  signed with the App private key using RS256, and carries \<open>iat = now - 60\<close> and
  \<open>exp = now + 480\<close>: it expires 540 seconds after its issued-at time, not 480, because
  the issued-at time is backdated by 60 seconds against clock skew.
\<close>

theorem github_auth_jwt_payload:
  "minted (snd (github_auth_jwt w now app_id key)) =
     [(\<lparr>jwt_iat = now - 60, jwt_exp = now + 480, jwt_iss = app_id\<rparr>, key, ''RS256'')]
   \<and> list_all (\<lambda>(p, k, a). jwt_exp p = jwt_iat p + 540 \<and> jwt_iss p = app_id \<and> k = key \<and>
                  a = ''RS256'')
        (minted (snd (github_auth_jwt w now app_id key)))"
  by (simp add: github_auth_jwt_def Let_def)

theorem github_auth_jwt_payload_witness:
  "minted (snd (github_auth_jwt demo_world 1000 ''12345'' ''PEM'')) =
     [(\<lparr>jwt_iat = 940, jwt_exp = 1480, jwt_iss = ''12345''\<rparr>, ''PEM'', ''RS256'')]"
  using github_auth_jwt_payload [of demo_world 1000 "''12345''" "''PEM''"] by simp

text \<open>
  C3 as stated fails: the assertion minted at \<open>now = 1000\<close> does not have
  \<open>exp = iat + 480\<close>.
\<close>

theorem github_auth_jwt_payload_counterexample:
  "map (\<lambda>(p, k, a). jwt_exp p = jwt_iat p + 480)
     (minted (snd (github_auth_jwt demo_world 1000 ''12345'' ''PEM''))) = [False]"
  by (simp add: github_auth_jwt_def Let_def)

subsection \<open>The retry job (C4)\<close>

lemma retry_all_events:
  "retry_all w ids h = map (\<lambda>i. HttpPost (attempts_url i) h None (Some 30)) ids"
  by (induction ids) (simp_all add: retry_webhook_delivery_def Let_def)

lemma fetch_pages_no_post_aux:
  "fetch_pages w h c url acc evs = Some y \<Longrightarrow>
     (\<forall>e\<in>set evs. \<not> is_post e) \<longrightarrow> (\<forall>e\<in>set (snd y). \<not> is_post e)"
proof (induction w h c url acc evs y rule: fetch_pages.raw_induct [rotated 1, consumes 1])
  case (1 fetch_pages w h c url acc evs y)
  show ?case
  proof
    assume evs: "\<forall>e\<in>set evs. \<not> is_post e"
    then have evs2: "\<forall>e\<in>set (evs @ [HttpGet url h, Sleep 1]). \<not> is_post e" by simp
    from 1(2) evs 1(1) [THEN mp, OF _ evs2] show "\<forall>e\<in>set (snd y). \<not> is_post e"
      by (auto split: page_reply.splits if_splits prod.splits scan.splits option.splits)
  qed
qed

lemma get_webhook_deliveries_no_post:
  "get_webhook_deliveries w h utcnow days = Some (r, evs) \<Longrightarrow> \<forall>e\<in>set evs. \<not> is_post e"
  using fetch_pages_no_post_aux [of w h _ deliveries_url "[]" "[]"]
  by (fastforce simp: get_webhook_deliveries_def split: option.splits)

lemma paged_world_listing:
  "get_webhook_deliveries paged_world h 1704931200000000 3 =
     Some (Inr [attempt (Some ''1'') ''g'' 500 ''2024-01-10T00:00:00Z''],
           [HttpGet deliveries_url h])"
  apply (simp add: get_webhook_deliveries_def cutoff_of_def Let_def)
  apply (subst fetch_pages.simps)
  apply (simp add: paged_world_def demo_world_def attempt_def)
  done

text \<open>
  C4 (as amended). \<open>retry_failed_deliveries\<close> obtains its headers by signing an App
  assertion itself (\<open>github_auth_jwt\<close>): the headers carry that JWT, not an installation
  access token, and no run sends a token-exchange request. With those headers it lists
  the deliveries, selects the failures and retries each selected id in order, one
  request with a 30-second timeout per id.
\<close>

theorem retry_failed_deliveries_run:
  "(jwt_encode w \<lparr>jwt_iat = now - 60, jwt_exp = now + 480, jwt_iss = app_id\<rparr> key ''RS256''
      = Some jwt \<and>
    get_webhook_deliveries w (bearer_headers jwt) utcnow days = Some (Inr ds, evs) \<longrightarrow>
      retry_failed_deliveries w now utcnow app_id key days =
        Some ([JwtEncode \<lparr>jwt_iat = now - 60, jwt_exp = now + 480, jwt_iss = app_id\<rparr> key
                 ''RS256''] @ evs @
              map (\<lambda>i. HttpPost (attempts_url i) (bearer_headers jwt) None (Some 30))
                (get_list_of_all_failed_delivery_ids ds)) \<and>
      (\<forall>e\<in>set evs. \<not> is_post e))
   \<and> (retry_failed_deliveries w now utcnow app_id key days = Some tr \<longrightarrow>
        (\<forall>url h. HttpPost url h None None \<notin> set tr))"
proof (intro conjI impI)
  assume a: "jwt_encode w \<lparr>jwt_iat = now - 60, jwt_exp = now + 480, jwt_iss = app_id\<rparr> key
       ''RS256'' = Some jwt \<and>
    get_webhook_deliveries w (bearer_headers jwt) utcnow days = Some (Inr ds, evs)"
  then show "retry_failed_deliveries w now utcnow app_id key days =
        Some ([JwtEncode \<lparr>jwt_iat = now - 60, jwt_exp = now + 480, jwt_iss = app_id\<rparr> key
                 ''RS256''] @ evs @
              map (\<lambda>i. HttpPost (attempts_url i) (bearer_headers jwt) None (Some 30))
                (get_list_of_all_failed_delivery_ids ds))"
    by (simp add: retry_failed_deliveries_def github_auth_jwt_def Let_def retry_all_events)
  from a show "\<forall>e\<in>set evs. \<not> is_post e"
    using get_webhook_deliveries_no_post by blast
next
  assume a: "retry_failed_deliveries w now utcnow app_id key days = Some tr"
  show "\<forall>url h. HttpPost url h None None \<notin> set tr"
  proof (cases "jwt_encode w \<lparr>jwt_iat = now - 60, jwt_exp = now + 480, jwt_iss = app_id\<rparr> key
                  ''RS256''")
    case None
    with a show ?thesis
      by (auto simp: retry_failed_deliveries_def github_auth_jwt_def Let_def)
  next
    case (Some jwt)
    with a obtain r evs
      where g: "get_webhook_deliveries w (bearer_headers jwt) utcnow days = Some (r, evs)"
      by (auto simp: retry_failed_deliveries_def github_auth_jwt_def Let_def
            split: option.splits)
    from get_webhook_deliveries_no_post [OF g]
    have np: "\<forall>url h. HttpPost url h None None \<notin> set evs"
      by fastforce
    from a Some g np show ?thesis
      by (cases r)
         (auto simp: retry_failed_deliveries_def github_auth_jwt_def Let_def retry_all_events)
  qed
qed

theorem retry_failed_deliveries_run_witness:
  "retry_failed_deliveries paged_world 1000 1704931200000000 ''12345'' ''PEM'' 3 =
     Some [JwtEncode \<lparr>jwt_iat = 940, jwt_exp = 1480, jwt_iss = ''12345''\<rparr> ''PEM'' ''RS256'',
           HttpGet deliveries_url (bearer_headers ''jwt-12345''),
           HttpPost ''https://api.github.com/app/hook/deliveries/1/attempts''
             (bearer_headers ''jwt-12345'') None (Some 30)]
   \<and> HttpPost (access_tokens_url ''77'') (bearer_headers ''jwt-12345'') None None \<notin>
       set [JwtEncode \<lparr>jwt_iat = 940, jwt_exp = 1480, jwt_iss = ''12345''\<rparr> ''PEM'' ''RS256'',
            HttpGet deliveries_url (bearer_headers ''jwt-12345''),
            HttpPost ''https://api.github.com/app/hook/deliveries/1/attempts''
              (bearer_headers ''jwt-12345'') None (Some 30)]"
proof -
  let ?tr = "[JwtEncode \<lparr>jwt_iat = 940, jwt_exp = 1480, jwt_iss = ''12345''\<rparr> ''PEM'' ''RS256'',
           HttpGet deliveries_url (bearer_headers ''jwt-12345''),
           HttpPost ''https://api.github.com/app/hook/deliveries/1/attempts''
             (bearer_headers ''jwt-12345'') None (Some 30)]"
  have sign: "jwt_encode paged_world \<lparr>jwt_iat = 1000 - 60, jwt_exp = 1000 + 480,
      jwt_iss = ''12345''\<rparr> ''PEM'' ''RS256'' = Some ''jwt-12345''"
    by (simp add: paged_world_def demo_world_def)
  have ids: "get_list_of_all_failed_delivery_ids
      [attempt (Some ''1'') ''g'' 500 ''2024-01-10T00:00:00Z''] = [''1'']"
    by (simp add: get_list_of_all_failed_delivery_ids_def attempt_def)
  have run: "retry_failed_deliveries paged_world 1000 1704931200000000 ''12345'' ''PEM'' 3 =
      Some ?tr"
    using retry_failed_deliveries_run
      [where w = paged_world and now = 1000 and app_id = "''12345''" and key = "''PEM''"
         and jwt = "''jwt-12345''" and utcnow = 1704931200000000 and days = 3
         and ds = "[attempt (Some ''1'') ''g'' 500 ''2024-01-10T00:00:00Z'']"
         and evs = "[HttpGet deliveries_url (bearer_headers ''jwt-12345'')]"]
      sign paged_world_listing [of "bearer_headers ''jwt-12345''"]
    by (simp add: ids attempts_url_def)
  have "\<forall>url h. HttpPost url h None None \<notin> set ?tr"
    using retry_failed_deliveries_run
      [where w = paged_world and now = 1000 and app_id = "''12345''" and key = "''PEM''"
         and utcnow = 1704931200000000 and days = 3 and tr = ?tr] run
    by blast
  then have "HttpPost (access_tokens_url ''77'') (bearer_headers ''jwt-12345'') None None
      \<notin> set ?tr"
    by blast
  with run show ?thesis by simp
qed

text \<open>
  C4 as stated fails: in a world where the token manager would hand out the
  installation token \<open>ghs_1\<close>, the job's requests carry the App JWT, and the run holds no
  token-exchange request.
\<close>

theorem retry_failed_deliveries_run_counterexample:
  "fst (get_headers paged_world 0 1000 (cold ''PEM'')) = Inr (bearer_headers ''ghs_1'')
   \<and> retry_failed_deliveries paged_world 1000 1704931200000000 ''12345'' ''PEM'' 3 =
       Some [JwtEncode \<lparr>jwt_iat = 940, jwt_exp = 1480, jwt_iss = ''12345''\<rparr> ''PEM'' ''RS256'',
             HttpGet deliveries_url (bearer_headers ''jwt-12345''),
             HttpPost ''https://api.github.com/app/hook/deliveries/1/attempts''
               (bearer_headers ''jwt-12345'') None (Some 30)]
   \<and> bearer_headers ''jwt-12345'' \<noteq> bearer_headers ''ghs_1''"
proof -
  have a: "fst (get_headers paged_world 0 1000 (cold ''PEM'')) = Inr (bearer_headers ''ghs_1'')"
    by (simp add: get_headers_def needs_refresh_def fetch_new_token_def github_auth_jwt_def
          store_reply_def parse_github_time_def paged_world_def demo_world_def cold_def Let_def)
  have j: "github_auth_jwt paged_world 1000 ''12345'' ''PEM'' =
      (Inr (bearer_headers ''jwt-12345''),
       [JwtEncode \<lparr>jwt_iat = 940, jwt_exp = 1480, jwt_iss = ''12345''\<rparr> ''PEM'' ''RS256''])"
    by (simp add: github_auth_jwt_def Let_def paged_world_def demo_world_def)
  have ids: "get_list_of_all_failed_delivery_ids
      [attempt (Some ''1'') ''g'' 500 ''2024-01-10T00:00:00Z''] = [''1'']"
    by (simp add: get_list_of_all_failed_delivery_ids_def attempt_def)
  have b: "retry_failed_deliveries paged_world 1000 1704931200000000 ''12345'' ''PEM'' 3 =
       Some [JwtEncode \<lparr>jwt_iat = 940, jwt_exp = 1480, jwt_iss = ''12345''\<rparr> ''PEM'' ''RS256'',
             HttpGet deliveries_url (bearer_headers ''jwt-12345''),
             HttpPost ''https://api.github.com/app/hook/deliveries/1/attempts''
               (bearer_headers ''jwt-12345'') None (Some 30)]"
    by (simp add: retry_failed_deliveries_def j paged_world_listing ids retry_all_events
          attempts_url_def)
  have c: "bearer_headers ''jwt-12345'' \<noteq> bearer_headers ''ghs_1''"
    by (simp add: bearer_headers_def)
  from a b c show ?thesis by simp
qed

subsection \<open>Retrying one delivery (C5)\<close>

text \<open>
  C5. At a response with status 404 and a JSON body, \<open>retry_webhook_delivery\<close> returns
  that body, not \<open>None\<close>: the status code is never looked at beyond a log line.
\<close>

theorem retry_webhook_delivery_404:
  "post_attempts demo_world (attempts_url ''42'') (bearer_headers ''jwt-12345'') =
     AttemptResponse 404 (Some (JObject [(''message'', JString ''Not Found'')]))
   \<and> retry_webhook_delivery demo_world ''42'' (bearer_headers ''jwt-12345'') =
       (JObject [(''message'', JString ''Not Found'')],
        [HttpPost ''https://api.github.com/app/hook/deliveries/42/attempts''
           (bearer_headers ''jwt-12345'') None (Some 30)])"
  by (simp add: retry_webhook_delivery_def attempts_url_def demo_world_def Let_def)

subsection \<open>Selecting the failed deliveries (C6)\<close>

lemma failed_loop_taken:
  "failed_loop ds ids guids = ids @ map (\<lambda>d. py_str (entry_id d)) (taken ds guids)"
  by (induction ds arbitrary: ids guids) (auto simp: eligible_def split: option.splits)

lemma taken_subseq: "subseq (taken ds guids) ds"
  by (induction ds arbitrary: guids) auto

lemma taken_eligible: "d \<in> set (taken ds guids) \<Longrightarrow> eligible d \<and> guid d \<notin> set guids"
proof (induction ds arbitrary: guids)
  case Nil
  then show ?case by simp
next
  case (Cons a ds)
  show ?case
  proof (cases "eligible a \<and> guid a \<notin> set guids")
    case True
    with Cons.prems have "d = a \<or> d \<in> set (taken ds (guids @ [guid a]))" by simp
    then show ?thesis
    proof
      assume "d = a" with True show ?thesis by simp
    next
      assume "d \<in> set (taken ds (guids @ [guid a]))"
      from Cons.IH [OF this] show ?thesis by simp
    qed
  next
    case False
    with Cons.prems have "d \<in> set (taken ds guids)" by auto
    from Cons.IH [OF this] show ?thesis .
  qed
qed

lemma taken_distinct: "distinct (map guid (taken ds guids))"
  by (induction ds arbitrary: guids) (auto dest: taken_eligible)

lemma taken_first:
  "d \<in> set ds \<Longrightarrow> eligible d \<Longrightarrow> guid d \<notin> set guids \<Longrightarrow>
     \<exists>pre e post. ds = pre @ e # post \<and> e \<in> set (taken ds guids) \<and> guid e = guid d \<and>
        eligible e \<and> (\<forall>x\<in>set pre. eligible x \<longrightarrow> guid x \<noteq> guid d)"
proof (induction ds arbitrary: guids)
  case Nil
  then show ?case by simp
next
  case (Cons a ds)
  show ?case
  proof (cases "eligible a \<and> guid a = guid d")
    case True
    with Cons.prems have "a \<in> set (taken (a # ds) guids)" by simp
    with True show ?thesis by (intro exI [of _ "[]"] exI [of _ a] exI [of _ ds]) simp
  next
    case False
    with Cons.prems have din: "d \<in> set ds" by auto
    let ?g = "if eligible a \<and> guid a \<notin> set guids then guids @ [guid a] else guids"
    have "guid d \<notin> set ?g" using Cons.prems False by auto
    from Cons.IH [OF din Cons.prems(2) this]
    obtain pre e post where h: "ds = pre @ e # post" "e \<in> set (taken ds ?g)" "guid e = guid d"
       "eligible e" "\<forall>x\<in>set pre. eligible x \<longrightarrow> guid x \<noteq> guid d" by blast
    have "e \<in> set (taken (a # ds) guids)" using h(2) by (auto split: if_splits)
    with h False show ?thesis
      by (intro exI [of _ "a # pre"] exI [of _ e] exI [of _ post]) auto
  qed
qed

lemma taken_all_200: "\<forall>d\<in>set ds. status_code d = Some 200 \<Longrightarrow> taken ds guids = []"
  by (induction ds arbitrary: guids) (auto simp: eligible_def)

text \<open>
  C6 (as amended). For every list of deliveries, the ids returned are those of a
  subsequence \<open>sel\<close> of the list, in order, whose entries all have a status other than
  200 and a non-empty id and have pairwise different guids; and the first occurrence
  wins: for every entry with a status other than 200 and a non-empty id, the first such
  entry of its guid is in \<open>sel\<close>. So two entries sharing a guid, both with status 500,
  yield exactly the first entry's id when the first entry has a non-empty id; and a list
  whose entries all have status 200 yields no id. Entries without an id are skipped and
  take no part in the deduplication.
\<close>

theorem failed_delivery_ids_dedup:
  "(\<exists>sel. get_list_of_all_failed_delivery_ids ds = map (\<lambda>d. py_str (entry_id d)) sel \<and>
      subseq sel ds \<and>
      (\<forall>d\<in>set sel. status_code d \<noteq> Some 200 \<and> \<not> py_not (entry_id d)) \<and>
      distinct (map guid sel) \<and>
      (\<forall>d\<in>set ds. eligible d \<longrightarrow>
         (\<exists>pre e post. ds = pre @ e # post \<and> e \<in> set sel \<and> guid e = guid d \<and>
            (\<forall>x\<in>set pre. eligible x \<longrightarrow> guid x \<noteq> guid d))))
   \<and> (guid d1 = guid d2 \<and> status_code d1 = Some 500 \<and> status_code d2 = Some 500 \<and>
       entry_id d1 = Some i \<and> i \<noteq> [] \<longrightarrow>
         get_list_of_all_failed_delivery_ids [d1, d2] = [i])
   \<and> ((\<forall>d\<in>set ds. status_code d = Some 200) \<longrightarrow>
         get_list_of_all_failed_delivery_ids ds = [])"
proof (intro conjI impI)
  let ?sel = "taken ds []"
  have 1: "get_list_of_all_failed_delivery_ids ds = map (\<lambda>d. py_str (entry_id d)) ?sel"
    by (simp add: get_list_of_all_failed_delivery_ids_def failed_loop_taken)
  have 2: "subseq ?sel ds" by (rule taken_subseq)
  have 3: "\<forall>d\<in>set ?sel. status_code d \<noteq> Some 200 \<and> \<not> py_not (entry_id d)"
    using taken_eligible [of _ ds "[]"] by (auto simp: eligible_def)
  have 4: "distinct (map guid ?sel)" by (rule taken_distinct)
  have 5: "\<forall>d\<in>set ds. eligible d \<longrightarrow>
         (\<exists>pre e post. ds = pre @ e # post \<and> e \<in> set ?sel \<and> guid e = guid d \<and>
            (\<forall>x\<in>set pre. eligible x \<longrightarrow> guid x \<noteq> guid d))"
  proof (intro ballI impI)
    fix d assume "d \<in> set ds" "eligible d"
    from taken_first [OF this, of "[]"]
    show "\<exists>pre e post. ds = pre @ e # post \<and> e \<in> set ?sel \<and> guid e = guid d \<and>
            (\<forall>x\<in>set pre. eligible x \<longrightarrow> guid x \<noteq> guid d)"
      by auto
  qed
  from 1 2 3 4 5
  show "\<exists>sel. get_list_of_all_failed_delivery_ids ds = map (\<lambda>d. py_str (entry_id d)) sel \<and>
      subseq sel ds \<and>
      (\<forall>d\<in>set sel. status_code d \<noteq> Some 200 \<and> \<not> py_not (entry_id d)) \<and>
      distinct (map guid sel) \<and>
      (\<forall>d\<in>set ds. eligible d \<longrightarrow>
         (\<exists>pre e post. ds = pre @ e # post \<and> e \<in> set sel \<and> guid e = guid d \<and>
            (\<forall>x\<in>set pre. eligible x \<longrightarrow> guid x \<noteq> guid d)))"
    by (intro exI [of _ ?sel] conjI)
next
  assume "guid d1 = guid d2 \<and> status_code d1 = Some 500 \<and> status_code d2 = Some 500 \<and>
       entry_id d1 = Some i \<and> i \<noteq> []"
  then show "get_list_of_all_failed_delivery_ids [d1, d2] = [i]"
    by (simp add: get_list_of_all_failed_delivery_ids_def split: option.splits)
next
  assume "\<forall>d\<in>set ds. status_code d = Some 200"
  then show "get_list_of_all_failed_delivery_ids ds = []"
    by (simp add: get_list_of_all_failed_delivery_ids_def failed_loop_taken taken_all_200)
qed

theorem failed_delivery_ids_dedup_witness:
  "get_list_of_all_failed_delivery_ids
     [attempt (Some ''1'') ''g'' 500 ''2024-01-10T00:00:00Z'',
      attempt (Some ''2'') ''g'' 500 ''2024-01-10T00:00:00Z''] = [''1'']
   \<and> get_list_of_all_failed_delivery_ids
       [attempt (Some ''3'') ''g'' 200 ''2024-01-10T00:00:00Z'',
        attempt (Some ''4'') ''h'' 200 ''2024-01-10T00:00:00Z''] = []"
proof -
  let ?a = "attempt (Some ''1'') ''g'' 500 ''2024-01-10T00:00:00Z''"
  let ?b = "attempt (Some ''2'') ''g'' 500 ''2024-01-10T00:00:00Z''"
  let ?ok = "[attempt (Some ''3'') ''g'' 200 ''2024-01-10T00:00:00Z'',
              attempt (Some ''4'') ''h'' 200 ''2024-01-10T00:00:00Z'']"
  have h1: "guid ?a = guid ?b \<and> status_code ?a = Some 500 \<and> status_code ?b = Some 500 \<and>
       entry_id ?a = Some ''1'' \<and> ''1'' \<noteq> []"
    by (simp add: attempt_def)
  have h2: "\<forall>d\<in>set ?ok. status_code d = Some 200"
    by (simp add: attempt_def)
  from failed_delivery_ids_dedup [of ?ok ?a ?b "''1''"] h1 h2 show ?thesis by blast
qed

text \<open>
  C6 as stated fails: of two entries that share a guid and both have status 500, the
  first without an id, the id returned is the second entry's.
\<close>

theorem failed_delivery_ids_dedup_counterexample:
  "get_list_of_all_failed_delivery_ids
     [attempt None ''g'' 500 ''2024-01-10T00:00:00Z'',
      attempt (Some ''2'') ''g'' 500 ''2024-01-10T00:00:00Z''] = [''2'']"
  by (simp add: get_list_of_all_failed_delivery_ids_def attempt_def)

subsection \<open>Stopping at the cutoff (C7)\<close>











subsection \<open>Dispatching a webhook (C8)\<close>

text \<open>
  C8 (as amended). For every inbound webhook with header \<open>x-github-event: issues\<close>
  whose body has an action in \<open>{opened, reopened}\<close> and a present (non-empty) issue
  node id, the handler makes exactly one \<open>add_to_project\<close> call, whose mutation carries
  that node id as its content id. For any other action it makes no call at all, and it
  answers "No action taken." when the body's \<open>issue\<close> entry is absent or an object; when
  \<open>issue\<close> is present but no object, the handler answers 500 Internal Server Error.
\<close>

theorem trigger_workflow_dispatch:
  "(x_github_event req = Some ''issues'' \<and>
    request_json req = BodyObject (Some a) (IssueObject (Some n)) \<and>
    a \<in> {''opened'', ''reopened''} \<and> n \<noteq> [] \<longrightarrow>
      snd (trigger_workflow w pid hdrs req) =
        [HttpPost graphql_url hdrs (Some (mutation pid n)) None] \<and>
      snd (trigger_workflow w pid hdrs req) = snd (add_to_project w pid n hdrs))
   \<and> (request_json req = BodyObject action issue \<and>
       action \<notin> {Some ''opened'', Some ''reopened''} \<longrightarrow>
         snd (trigger_workflow w pid hdrs req) = [] \<and>
         (issue \<noteq> IssueNotObject \<longrightarrow>
            fst (trigger_workflow w pid hdrs req) =
              JSONResponse 200 [(''message'', ''No action taken.'')]) \<and>
         (issue = IssueNotObject \<and> x_github_event req = Some ''issues'' \<longrightarrow>
            fst (trigger_workflow w pid hdrs req) =
              JSONResponse 500 [(''detail'', ''Internal Server Error'')]))"
  by (cases issue)
     (auto simp: trigger_workflow_def issue_node_id_def add_to_project_def Let_def)

theorem trigger_workflow_dispatch_witness:
  "trigger_workflow demo_world (Some ''PVT_1'') (bearer_headers ''ghs_1'')
     \<lparr>x_github_event = Some ''issues'',
      request_json = BodyObject (Some ''opened'') (IssueObject (Some ''I_1''))\<rparr> =
     (JSONResponse 200 [(''message'', ''Issue added to project.'')],
      [HttpPost graphql_url (bearer_headers ''ghs_1'') (Some (mutation (Some ''PVT_1'') ''I_1''))
         None])
   \<and> trigger_workflow demo_world (Some ''PVT_1'') (bearer_headers ''ghs_1'')
       \<lparr>x_github_event = Some ''issues'',
        request_json = BodyObject (Some ''closed'') (IssueObject (Some ''I_1''))\<rparr> =
       (JSONResponse 200 [(''message'', ''No action taken.'')], [])
   \<and> trigger_workflow demo_world (Some ''PVT_1'') (bearer_headers ''ghs_1'')
       \<lparr>x_github_event = Some ''issues'',
        request_json = BodyObject (Some ''closed'') IssueNotObject\<rparr> =
       (JSONResponse 500 [(''detail'', ''Internal Server Error'')], [])"
proof -
  let ?opened = "\<lparr>x_github_event = Some ''issues'',
      request_json = BodyObject (Some ''opened'') (IssueObject (Some ''I_1''))\<rparr>"
  let ?closed = "\<lparr>x_github_event = Some ''issues'',
      request_json = BodyObject (Some ''closed'') (IssueObject (Some ''I_1''))\<rparr>"
  let ?null = "\<lparr>x_github_event = Some ''issues'',
      request_json = BodyObject (Some ''closed'') IssueNotObject\<rparr>"
  have 1: "snd (trigger_workflow demo_world (Some ''PVT_1'') (bearer_headers ''ghs_1'') ?opened)
      = [HttpPost graphql_url (bearer_headers ''ghs_1'')
           (Some (mutation (Some ''PVT_1'') ''I_1'')) None]"
    using trigger_workflow_dispatch
      [where req = ?opened and a = "''opened''" and n = "''I_1''" and w = demo_world
         and pid = "Some ''PVT_1''" and hdrs = "bearer_headers ''ghs_1''"
         and action = "Some ''opened''" and issue = "IssueObject (Some ''I_1'')"]
    by simp
  have 2: "fst (trigger_workflow demo_world (Some ''PVT_1'') (bearer_headers ''ghs_1'') ?opened)
      = JSONResponse 200 [(''message'', ''Issue added to project.'')]"
    by (simp add: trigger_workflow_def issue_node_id_def)
  have 3: "trigger_workflow demo_world (Some ''PVT_1'') (bearer_headers ''ghs_1'') ?closed
      = (JSONResponse 200 [(''message'', ''No action taken.'')], [])"
    using trigger_workflow_dispatch
      [where req = ?closed and a = "''opened''" and n = "''I_1''" and w = demo_world
         and pid = "Some ''PVT_1''" and hdrs = "bearer_headers ''ghs_1''"
         and action = "Some ''closed''" and issue = "IssueObject (Some ''I_1'')"]
    by (simp add: prod_eq_iff)
  have 4: "trigger_workflow demo_world (Some ''PVT_1'') (bearer_headers ''ghs_1'') ?null
      = (JSONResponse 500 [(''detail'', ''Internal Server Error'')], [])"
    using trigger_workflow_dispatch
      [where req = ?null and a = "''opened''" and n = "''I_1''" and w = demo_world
         and pid = "Some ''PVT_1''" and hdrs = "bearer_headers ''ghs_1''"
         and action = "Some ''closed''" and issue = IssueNotObject]
    by (simp add: prod_eq_iff)
  from 1 2 3 4 show ?thesis by (simp add: prod_eq_iff)
qed

text \<open>
  C8 as stated fails: an issues webhook with action "closed" whose \<open>issue\<close> entry is
  \<open>null\<close> is answered with 500, not with "No action taken.".
\<close>

theorem trigger_workflow_dispatch_counterexample:
  "trigger_workflow demo_world (Some ''PVT_1'') (bearer_headers ''ghs_1'')
     \<lparr>x_github_event = Some ''issues'',
      request_json = BodyObject (Some ''closed'') IssueNotObject\<rparr> =
     (JSONResponse 500 [(''detail'', ''Internal Server Error'')], [])"
  by (simp add: trigger_workflow_def issue_node_id_def)

subsection \<open>The singleton (C9)\<close>

lemma get_headers_credentials:
  "get_headers w t now m = (res, m', evs) \<Longrightarrow>
     github_app_installation_id m' = github_app_installation_id m \<and>
     github_app_id m' = github_app_id m \<and>
     github_app_private_key m' = github_app_private_key m"
  by (auto simp: get_headers_def fetch_new_token_def store_reply_def Let_def
        split: if_splits prod.splits sum.splits token_reply.splits)

text \<open>
  C9. The class keeps one instance. Once an instance exists, a construction with any
  arguments returns the address of that instance and changes nothing: the first
  construction of a process creates the object with its arguments and nothing cached,
  a second construction right after it returns the same address and the same store, and
  so does a construction after \<open>get_headers\<close> has run on the instance, which then still
  holds the original credentials and the token that call cached.
\<close>

theorem singleton_constructor:
  "(cls_instance p = Some r \<longrightarrow>
      GitHubInstallationTokenManager_new p i' a' k' = (r, p))
   \<and> (cls_instance p = None \<longrightarrow>
        fst (GitHubInstallationTokenManager_new p i a k) = length (objects p) \<and>
        cls_instance (snd (GitHubInstallationTokenManager_new p i a k)) = Some (length (objects p)) \<and>
        objects (snd (GitHubInstallationTokenManager_new p i a k)) ! length (objects p) =
          \<lparr>github_app_installation_id = i, github_app_id = a, github_app_private_key = k,
           token = None, expires_at = 0\<rparr> \<and>
        GitHubInstallationTokenManager_new (snd (GitHubInstallationTokenManager_new p i a k)) i' a' k' =
          GitHubInstallationTokenManager_new p i a k)
   \<and> (cls_instance p = Some r \<and> get_headers_at w t now p r = Some (res, p', evs) \<longrightarrow>
        GitHubInstallationTokenManager_new p' i' a' k' = (r, p') \<and>
        github_app_installation_id (objects p' ! r) = github_app_installation_id (objects p ! r) \<and>
        github_app_id (objects p' ! r) = github_app_id (objects p ! r) \<and>
        github_app_private_key (objects p' ! r) = github_app_private_key (objects p ! r) \<and>
        (\<exists>m'. get_headers w t now (objects p ! r) = (res, m', evs) \<and> objects p' ! r = m'))"
proof (intro conjI impI)
  assume "cls_instance p = Some r \<and> get_headers_at w t now p r = Some (res, p', evs)"
  then obtain m' where g: "get_headers w t now (objects p ! r) = (res, m', evs)"
    and p': "p' = p\<lparr>objects := (objects p)[r := m']\<rparr>" and r: "r < length (objects p)"
    and c: "cls_instance p = Some r"
    by (auto simp: get_headers_at_def split: if_splits prod.splits)
  from p' c show "GitHubInstallationTokenManager_new p' i' a' k' = (r, p')"
    by (simp add: GitHubInstallationTokenManager_new_def)
  from get_headers_credentials [OF g] p' r
  show "github_app_installation_id (objects p' ! r) = github_app_installation_id (objects p ! r)"
    and "github_app_id (objects p' ! r) = github_app_id (objects p ! r)"
    and "github_app_private_key (objects p' ! r) = github_app_private_key (objects p ! r)"
    by simp_all
  from g p' r show "\<exists>m'. get_headers w t now (objects p ! r) = (res, m', evs) \<and> objects p' ! r = m'"
    by simp
qed (simp_all add: GitHubInstallationTokenManager_new_def)

theorem singleton_constructor_witness:
  "GitHubInstallationTokenManager_new \<lparr>objects = [], cls_instance = None\<rparr> ''77'' ''12345'' ''PEM''
     = (0, \<lparr>objects = [cold ''PEM''], cls_instance = Some 0\<rparr>)
   \<and> GitHubInstallationTokenManager_new \<lparr>objects = [cold ''PEM''], cls_instance = Some 0\<rparr>
        ''88'' ''999'' ''OTHER'' = (0, \<lparr>objects = [cold ''PEM''], cls_instance = Some 0\<rparr>)
   \<and> get_headers_at demo_world 0 1000 \<lparr>objects = [cold ''PEM''], cls_instance = Some 0\<rparr> 0 =
       Some (Inr (bearer_headers ''ghs_1''),
             \<lparr>objects = [(cold ''PEM'')\<lparr>token := Some ''ghs_1'', expires_at := 1893456000\<rparr>],
              cls_instance = Some 0\<rparr>,
             [JwtEncode \<lparr>jwt_iat = 940, jwt_exp = 1480, jwt_iss = ''12345''\<rparr> ''PEM'' ''RS256'',
              HttpPost ''https://api.github.com/app/installations/77/access_tokens''
                (bearer_headers ''jwt-12345'') None None])
   \<and> GitHubInstallationTokenManager_new
        \<lparr>objects = [(cold ''PEM'')\<lparr>token := Some ''ghs_1'', expires_at := 1893456000\<rparr>],
         cls_instance = Some 0\<rparr> ''88'' ''999'' ''OTHER'' =
       (0, \<lparr>objects = [(cold ''PEM'')\<lparr>token := Some ''ghs_1'', expires_at := 1893456000\<rparr>],
            cls_instance = Some 0\<rparr>)"
proof -
  let ?p0 = "\<lparr>objects = [], cls_instance = None\<rparr>"
  let ?p1 = "\<lparr>objects = [cold ''PEM''], cls_instance = Some 0\<rparr>"
  let ?p2 = "\<lparr>objects = [(cold ''PEM'')\<lparr>token := Some ''ghs_1'', expires_at := 1893456000\<rparr>],
         cls_instance = Some 0\<rparr>"
  have shape: "GitHubInstallationTokenManager_new ?p0 ''77'' ''12345'' ''PEM'' = (0, ?p1)"
    by (simp add: GitHubInstallationTokenManager_new_def cold_def)
  have again: "GitHubInstallationTokenManager_new
      (snd (GitHubInstallationTokenManager_new ?p0 ''77'' ''12345'' ''PEM'')) ''88'' ''999''
      ''OTHER'' = GitHubInstallationTokenManager_new ?p0 ''77'' ''12345'' ''PEM''"
    using singleton_constructor
      [where p = ?p0 and i = "''77''" and a = "''12345''" and k = "''PEM''"
         and i' = "''88''" and a' = "''999''" and k' = "''OTHER''"]
    by simp
  have second: "GitHubInstallationTokenManager_new ?p1 ''88'' ''999'' ''OTHER'' = (0, ?p1)"
    using again by (simp add: shape)
  have fetch: "get_headers_at demo_world 0 1000 ?p1 0 =
       Some (Inr (bearer_headers ''ghs_1''), ?p2,
             [JwtEncode \<lparr>jwt_iat = 940, jwt_exp = 1480, jwt_iss = ''12345''\<rparr> ''PEM'' ''RS256'',
              HttpPost ''https://api.github.com/app/installations/77/access_tokens''
                (bearer_headers ''jwt-12345'') None None])"
    by (simp add: get_headers_at_def get_headers_def needs_refresh_def fetch_new_token_def
          github_auth_jwt_def store_reply_def parse_github_time_def access_tokens_url_def
          demo_world_def cold_def Let_def)
  have inst: "cls_instance ?p1 = Some 0 \<and> get_headers_at demo_world 0 1000 ?p1 0 =
       Some (Inr (bearer_headers ''ghs_1''), ?p2,
             [JwtEncode \<lparr>jwt_iat = 940, jwt_exp = 1480, jwt_iss = ''12345''\<rparr> ''PEM'' ''RS256'',
              HttpPost ''https://api.github.com/app/installations/77/access_tokens''
                (bearer_headers ''jwt-12345'') None None])"
    using fetch by simp
  from singleton_constructor
    [where p = ?p1 and r = 0 and w = demo_world and t = 0 and now = 1000 and p' = ?p2
       and i' = "''88''" and a' = "''999''" and k' = "''OTHER''"] inst
  have third: "GitHubInstallationTokenManager_new ?p2 ''88'' ''999'' ''OTHER'' = (0, ?p2)"
    by blast
  from shape second fetch third show ?thesis by simp
qed

subsection \<open>The discarded result (C10)\<close>




end
